theory Spec2Isabelle
  imports Main "HOL-Library.Word" "HOL-Library.Sublist"
begin

unbundle bit_operations_syntax

section \<open>JavaScript strings\<close>

text \<open>
  A JavaScript string is a finite sequence of 16-bit code units.  String literals of the
  source are written with \<open>js\<close>, which maps every character of an ASCII literal to the
  code unit of the same number.
\<close>

type_synonym cu = "16 word"
type_synonym jsstring = "cu list"

definition js :: "string \<Rightarrow> jsstring" where
  "js s = map of_char s"

section \<open>The host runtime: logging, commands, exceptions\<close>

text \<open>
  A value thrown in JavaScript is either an instance of \<open>Error\<close>, which carries a message,
  or anything else.  The handlers of the source test \<open>error instanceof Error\<close>.
\<close>

datatype exn = ErrorObj jsstring | Thrown

text \<open>
  What the action does to its surroundings, in the order it does it: the three logging
  calls of \<open>@actions/core\<close>, the commands handed to \<open>exec.exec\<close> (as argument vectors,
  the program first), the file written by \<open>fs.writeFileSync\<close> and the state saved by
  \<open>core.saveState\<close>.
\<close>

datatype event =
    Info jsstring
  | Warning jsstring
  | SetFailed jsstring
  | Exec "jsstring list"
  | WriteFile jsstring jsstring nat
  | SaveState jsstring jsstring

fun is_fatal :: "event \<Rightarrow> bool" where
  "is_fatal (SetFailed m) = True"
| "is_fatal ev = False"

fun is_warning :: "event \<Rightarrow> bool" where
  "is_warning (Warning m) = True"
| "is_warning ev = False"

fun is_exec :: "event \<Rightarrow> bool" where
  "is_exec (Exec argv) = True"
| "is_exec ev = False"

fun is_save_state :: "event \<Rightarrow> bool" where
  "is_save_state (SaveState k v) = True"
| "is_save_state ev = False"

text \<open>
  The part of the machine the two phases touch: the tunnel interface, the staging file
  \<open>/tmp/wg0.conf\<close>, the configuration file \<open>/etc/wireguard/wg0.conf\<close> and the state the
  runtime keeps for the post step.
\<close>

record world =
  iface_up :: bool
  tmp_file :: "jsstring option"
  conf_file :: "jsstring option"
  saved_state :: "(jsstring \<times> jsstring) list"

text \<open>
  The host is the part that the action cannot control: the values of its inputs (the
  environment variables read by \<open>core.getInput\<close>), the outcome of every command
  (\<open>None\<close> when the command exits with 0, \<open>Some msg\<close> when \<open>exec.exec\<close> rejects, which it
  does with an \<open>Error\<close> carrying \<open>msg\<close>) and the outcome of \<open>fs.writeFileSync\<close>.
\<close>

record host =
  input_env :: "jsstring \<Rightarrow> jsstring"
  exec_outcome :: "jsstring list \<Rightarrow> jsstring option"
  write_outcome :: "jsstring option"

text \<open>
  An action runs on the events logged so far and the world, and either returns a value or
  throws; both ways it leaves a log and a world behind.
\<close>

type_synonym 'a act = "event list \<times> world \<Rightarrow> (exn + 'a) \<times> (event list \<times> world)"

definition ret :: "'a \<Rightarrow> 'a act" where
  "ret x = (\<lambda>s. (Inr x, s))"

definition throw :: "exn \<Rightarrow> 'a act" where
  "throw e = (\<lambda>s. (Inl e, s))"

definition bind_act :: "'a act \<Rightarrow> ('a \<Rightarrow> 'b act) \<Rightarrow> 'b act" where
  "bind_act m f = (\<lambda>s. case m s of (Inl e, s') \<Rightarrow> (Inl e, s') | (Inr x, s') \<Rightarrow> f x s')"

definition then_act :: "unit act \<Rightarrow> 'b act \<Rightarrow> 'b act" where
  "then_act m n = bind_act m (\<lambda>u. n)"

definition try_catch :: "'a act \<Rightarrow> (exn \<Rightarrow> 'a act) \<Rightarrow> 'a act" where
  "try_catch m handler = (\<lambda>s. case m s of (Inl e, s') \<Rightarrow> handler e s' | (Inr x, s') \<Rightarrow> (Inr x, s'))"

definition emit :: "event \<Rightarrow> unit act" where
  "emit ev = (\<lambda>(evs, w). (Inr (), (evs @ [ev], w)))"

definition core_info :: "jsstring \<Rightarrow> unit act" where
  "core_info m = emit (Info m)"

definition core_warning :: "jsstring \<Rightarrow> unit act" where
  "core_warning m = emit (Warning m)"

definition core_setFailed :: "jsstring \<Rightarrow> unit act" where
  "core_setFailed m = emit (SetFailed m)"

text \<open>
  What a command that exits with 0 does to the world.  Only the commands whose effect a
  claim speaks of change it: moving the staging file into place, bringing the interface up
  or down, and removing the configuration file.
\<close>

definition command_effect :: "jsstring list \<Rightarrow> world \<Rightarrow> world" where
  "command_effect argv w =
     (if argv = map js [''sudo'', ''mv'', ''/tmp/wg0.conf'', ''/etc/wireguard/wg0.conf'']
        then w\<lparr>conf_file := tmp_file w, tmp_file := None\<rparr>
      else if argv = map js [''sudo'', ''wg-quick'', ''up'', ''wg0'']
        then w\<lparr>iface_up := True\<rparr>
      else if argv = map js [''sudo'', ''wg-quick'', ''down'', ''wg0'']
        then w\<lparr>iface_up := False\<rparr>
      else if argv = map js [''sudo'', ''rm'', ''-f'', ''/etc/wireguard/wg0.conf'']
        then w\<lparr>conf_file := None\<rparr>
      else w)"

text \<open>
  \<open>exec.exec\<close>: the command is run; a non-zero exit rejects the promise with an \<open>Error\<close>,
  and then the command has changed nothing.
\<close>

definition exec_exec :: "host \<Rightarrow> jsstring list \<Rightarrow> unit act" where
  "exec_exec h argv = (\<lambda>(evs, w).
     case exec_outcome h argv of
       None \<Rightarrow> (Inr (), (evs @ [Exec argv], command_effect argv w))
     | Some msg \<Rightarrow> (Inl (ErrorObj msg), (evs @ [Exec argv], w)))"

section \<open>Teardown: \<open>cleanup.ts\<close>\<close>

definition checkInterfaceExists :: "host \<Rightarrow> jsstring \<Rightarrow> bool act" where
  "checkInterfaceExists h interfaceName =
     try_catch
       (bind_act (exec_exec h [js ''ip'', js ''link'', js ''show'', interfaceName])
          (\<lambda>u. ret True))
       (\<lambda>e. ret False)"

definition checkFileExists :: "host \<Rightarrow> jsstring \<Rightarrow> bool act" where
  "checkFileExists h filePath =
     try_catch
       (bind_act (exec_exec h [js ''sudo'', js ''test'', js ''-f'', filePath])
          (\<lambda>u. ret True))
       (\<lambda>e. ret False)"

definition stop_wireguard :: "host \<Rightarrow> unit act" where
  "stop_wireguard h =
     then_act (core_info (js ''Stopping WireGuard connection...''))
       (try_catch
          (then_act (exec_exec h (map js [''sudo'', ''wg-quick'', ''down'', ''wg0'']))
             (core_info (js ''WireGuard connection stopped'')))
          (\<lambda>error. case error of
               ErrorObj m \<Rightarrow> core_warning (js ''Failed to stop WireGuard: '' @ m)
             | Thrown \<Rightarrow> ret ()))"

definition remove_config :: "host \<Rightarrow> unit act" where
  "remove_config h =
     then_act (core_info (js ''Removing WireGuard configuration...''))
       (then_act (exec_exec h (map js [''sudo'', ''rm'', ''-f'', ''/etc/wireguard/wg0.conf'']))
          (core_info (js ''WireGuard configuration removed'')))"

definition cleanup :: "host \<Rightarrow> unit act" where
  "cleanup h =
     try_catch
       (then_act (core_info (js ''Starting WireGuard cleanup...''))
       (bind_act (checkInterfaceExists h (js ''wg0'')) (\<lambda>interfaceExists.
        then_act
          (if interfaceExists then stop_wireguard h
           else core_info (js ''WireGuard interface wg0 not found, skipping disconnect''))
       (bind_act (checkFileExists h (js ''/etc/wireguard/wg0.conf'')) (\<lambda>configExists.
        then_act
          (if configExists then remove_config h
           else core_info (js ''WireGuard config file not found, skipping cleanup''))
          (core_info (js ''WireGuard cleanup completed'')))))))
       (\<lambda>error. case error of
            ErrorObj m \<Rightarrow> core_warning (js ''Cleanup failed: '' @ m)
          | Thrown \<Rightarrow> core_warning (js ''Cleanup failed with unknown error''))"

text \<open>The outcome of a whole phase started on an empty log.\<close>

definition outcome_of :: "unit act \<Rightarrow> world \<Rightarrow> exn + unit" where
  "outcome_of m w = fst (m ([], w))"

definition events_of :: "unit act \<Rightarrow> world \<Rightarrow> event list" where
  "events_of m w = fst (snd (m ([], w)))"

definition world_after :: "unit act \<Rightarrow> world \<Rightarrow> world" where
  "world_after m w = snd (snd (m ([], w)))"

lemmas act_defs =
  ret_def throw_def bind_act_def then_act_def try_catch_def emit_def
  core_info_def core_warning_def core_setFailed_def exec_exec_def
  outcome_of_def events_of_def world_after_def


section \<open>Regular expressions of the source\<close>

text \<open>
  The classes of ECMAScript: \<open>LineTerminator\<close> (LF, CR, LS, PS), and the class \<open>\s\<close>, which
  is \<open>WhiteSpace\<close> together with \<open>LineTerminator\<close>.  Without the \<open>s\<close> flag the dot matches
  every code unit but a line terminator.
\<close>

definition is_line_terminator :: "cu \<Rightarrow> bool" where
  "is_line_terminator c = (c = 0x000A \<or> c = 0x000D \<or> c = 0x2028 \<or> c = 0x2029)"

definition is_white_space :: "cu \<Rightarrow> bool" where
  "is_white_space c =
     (c = 0x0009 \<or> c = 0x000A \<or> c = 0x000B \<or> c = 0x000C \<or> c = 0x000D \<or> c = 0x0020
      \<or> c = 0x00A0 \<or> c = 0x1680 \<or> (0x2000 \<le> c \<and> c \<le> 0x200A)
      \<or> c = 0x2028 \<or> c = 0x2029 \<or> c = 0x202F \<or> c = 0x205F \<or> c = 0x3000 \<or> c = 0xFEFF)"

datatype cclass = Chr cu | Space | AnyChar

fun in_class :: "cclass \<Rightarrow> cu \<Rightarrow> bool" where
  "in_class (Chr c) x = (x = c)"
| "in_class Space x = is_white_space x"
| "in_class AnyChar x = (\<not> is_line_terminator x)"

text \<open>
  The patterns of the source are sequences of these terms: the assertion \<open>^\<close> (with the
  \<open>m\<close> flag), one character of a class, and the greedy quantifiers \<open>*\<close> and \<open>?\<close> on a
  class.
\<close>

datatype rterm = Bol | One cclass | Star cclass | Opt cclass

type_synonym regex = "rterm list"

text \<open>
  With the \<open>m\<close> flag, \<open>^\<close> holds at the start of the input and after a line terminator;
  \<open>prev\<close> is the code unit before the current position, if there is one.
\<close>

definition at_line_start :: "cu option \<Rightarrow> bool" where
  "at_line_start prev = (case prev of None \<Rightarrow> True | Some c \<Rightarrow> is_line_terminator c)"

text \<open>
  The backtracking matcher of ECMAScript on this fragment: \<open>rmatch r prev s\<close> matches \<open>r\<close>
  at the start of \<open>s\<close> and returns what is left of \<open>s\<close> after the match.  A greedy
  quantifier first takes a character and goes on, and gives it back when the rest of the
  pattern fails.
\<close>

fun rmatch :: "regex \<Rightarrow> cu option \<Rightarrow> jsstring \<Rightarrow> jsstring option" where
  "rmatch [] prev s = Some s"
| "rmatch (Bol # r) prev s = (if at_line_start prev then rmatch r prev s else None)"
| "rmatch (One c # r) prev [] = None"
| "rmatch (One c # r) prev (x # xs) = (if in_class c x then rmatch r (Some x) xs else None)"
| "rmatch (Star c # r) prev [] = rmatch r prev []"
| "rmatch (Star c # r) prev (x # xs) =
     (if in_class c x
      then (case rmatch (Star c # r) (Some x) xs of
              Some rest \<Rightarrow> Some rest
            | None \<Rightarrow> rmatch r prev (x # xs))
      else rmatch r prev (x # xs))"
| "rmatch (Opt c # r) prev [] = rmatch r prev []"
| "rmatch (Opt c # r) prev (x # xs) =
     (if in_class c x
      then (case rmatch r (Some x) xs of
              Some rest \<Rightarrow> Some rest
            | None \<Rightarrow> rmatch r prev (x # xs))
      else rmatch r prev (x # xs))"

text \<open>
  \<open>RegExp.prototype.exec\<close> from index 0 without the \<open>g\<close> flag: the first position at which
  the pattern matches.  The result is the text before the match, the match, and the text
  after it.
\<close>

fun rsearch :: "regex \<Rightarrow> cu option \<Rightarrow> jsstring \<Rightarrow> (jsstring \<times> jsstring \<times> jsstring) option" where
  "rsearch r prev [] =
     (case rmatch r prev [] of Some rest \<Rightarrow> Some ([], [], rest) | None \<Rightarrow> None)"
| "rsearch r prev (x # xs) =
     (case rmatch r prev (x # xs) of
        Some rest \<Rightarrow> Some ([], take (length (x # xs) - length rest) (x # xs), rest)
      | None \<Rightarrow>
          (case rsearch r (Some x) xs of
             Some (pre, matched, post) \<Rightarrow> Some (x # pre, matched, post)
           | None \<Rightarrow> None))"

text \<open>
  \<open>GetSubstitution\<close> for a pattern without capture groups: in the replacement text,
  \<open>$$\<close> stands for a dollar, \<open>$&\<close> for the match, \<open>$`\<close> for the text before the match and
  \<open>$'\<close> for the text after it; a dollar before anything else stands for itself.
\<close>

fun get_substitution :: "jsstring \<Rightarrow> jsstring \<Rightarrow> jsstring \<Rightarrow> jsstring \<Rightarrow> jsstring" where
  "get_substitution matched pre post [] = []"
| "get_substitution matched pre post [c] = [c]"
| "get_substitution matched pre post (c # d # t) =
     (if c = 0x24 \<and> d = 0x24 then 0x24 # get_substitution matched pre post t
      else if c = 0x24 \<and> d = 0x26 then matched @ get_substitution matched pre post t
      else if c = 0x24 \<and> d = 0x60 then pre @ get_substitution matched pre post t
      else if c = 0x24 \<and> d = 0x27 then post @ get_substitution matched pre post t
      else c # get_substitution matched pre post (d # t))"

text \<open>\<open>String.prototype.replace\<close> with a pattern without the \<open>g\<close> flag and a string.\<close>

definition replace_first :: "regex \<Rightarrow> jsstring \<Rightarrow> jsstring \<Rightarrow> jsstring" where
  "replace_first r replacement s =
     (case rsearch r None s of
        None \<Rightarrow> s
      | Some (pre, matched, post) \<Rightarrow>
          pre @ get_substitution matched pre post replacement @ post)"

text \<open>
  \<open>String.prototype.replace\<close> with a pattern with the \<open>g\<close> flag and the empty string:
  every match, found from left to right where the one before ended, is left out.  After an
  empty match the search moves on by one code unit.
\<close>

function remove_all :: "regex \<Rightarrow> cu option \<Rightarrow> jsstring \<Rightarrow> jsstring" where
  "remove_all r prev s =
     (case rmatch r prev s of
        Some rest \<Rightarrow>
          if length rest < length s
          then remove_all r (Some (last (take (length s - length rest) s))) rest
          else (case s of [] \<Rightarrow> [] | x # xs \<Rightarrow> x # remove_all r (Some x) xs)
      | None \<Rightarrow> (case s of [] \<Rightarrow> [] | x # xs \<Rightarrow> x # remove_all r (Some x) xs))"
  by pat_completeness auto
termination
  by (relation "measure (\<lambda>(r, prev, s). length s)") auto

definition lit :: "jsstring \<Rightarrow> regex" where
  "lit s = map (\<lambda>c. One (Chr c)) s"

text \<open>The three patterns: \<open>/^AllowedIPs\s*=.*/m\<close>, \<open>/^DNS\s*=.*/m\<close> and \<open>/^DNS\s*=.*\n?/gm\<close>.\<close>

definition re_allowed_ips :: regex where
  "re_allowed_ips = Bol # lit (js ''AllowedIPs'') @ [Star Space, One (Chr 0x3D), Star AnyChar]"

definition re_dns :: regex where
  "re_dns = Bol # lit (js ''DNS'') @ [Star Space, One (Chr 0x3D), Star AnyChar]"

definition re_dns_line :: regex where
  "re_dns_line =
     Bol # lit (js ''DNS'') @ [Star Space, One (Chr 0x3D), Star AnyChar, Opt (Chr 0x0A)]"

section \<open>Base64 and UTF-8, as the runtime decodes them\<close>

type_synonym byte = "8 word"

text \<open>
  \<open>Buffer.from(s, "base64")\<close> is lenient.  It reads the low byte of every code unit, takes
  the characters of the base64 alphabet and of the URL-safe alphabet, passes over every
  other character, and stops at the first \<open>=\<close>.  It never fails.
\<close>

definition unbase64 :: "byte \<Rightarrow> nat option" where
  "unbase64 c =
     (if 0x41 \<le> c \<and> c \<le> 0x5A then Some (unat c - 65)
      else if 0x61 \<le> c \<and> c \<le> 0x7A then Some (unat c - 71)
      else if 0x30 \<le> c \<and> c \<le> 0x39 then Some (unat c + 4)
      else if c = 0x2B \<or> c = 0x2D then Some 62
      else if c = 0x2F \<or> c = 0x5F then Some 63
      else None)"

fun base64_sextets :: "jsstring \<Rightarrow> nat list" where
  "base64_sextets [] = []"
| "base64_sextets (x # xs) =
     (case unbase64 (ucast x) of
        Some v \<Rightarrow> v # base64_sextets xs
      | None \<Rightarrow> if (ucast x :: byte) = 0x3D then [] else base64_sextets xs)"

text \<open>
  Four sextets give three bytes; two sextets left over give one byte, three give two, and
  the bits left over are dropped.
\<close>

fun sextets_bytes :: "nat list \<Rightarrow> byte list" where
  "sextets_bytes (a # b # c # d # r) =
     of_nat (a * 4 + b div 16) # of_nat (b mod 16 * 16 + c div 4) # of_nat (c mod 4 * 64 + d)
       # sextets_bytes r"
| "sextets_bytes [a, b, c] = [of_nat (a * 4 + b div 16), of_nat (b mod 16 * 16 + c div 4)]"
| "sextets_bytes [a, b] = [of_nat (a * 4 + b div 16)]"
| "sextets_bytes [a] = []"
| "sextets_bytes [] = []"

definition base64_decode :: "jsstring \<Rightarrow> byte list" where
  "base64_decode s = sextets_bytes (base64_sextets s)"

text \<open>
  \<open>buf.toString("utf-8")\<close>: the UTF-8 decoder of the runtime.  A well-formed sequence gives
  its code point, as one code unit or as a surrogate pair; every maximal ill-formed part
  gives U+FFFD, and decoding goes on at the byte that did not fit.  A byte order mark is
  kept.  It never fails.
\<close>

definition is_cont :: "byte \<Rightarrow> bool" where
  "is_cont b = (0x80 \<le> b \<and> b \<le> 0xBF)"

definition second_ok :: "byte \<Rightarrow> byte \<Rightarrow> bool" where
  "second_ok b c =
     (if b = 0xE0 then 0xA0 \<le> c \<and> c \<le> 0xBF
      else if b = 0xED then 0x80 \<le> c \<and> c \<le> 0x9F
      else if b = 0xF0 then 0x90 \<le> c \<and> c \<le> 0xBF
      else if b = 0xF4 then 0x80 \<le> c \<and> c \<le> 0x8F
      else is_cont c)"

definition cp_units :: "nat \<Rightarrow> jsstring" where
  "cp_units cp =
     (if cp < 0x10000 then [of_nat cp]
      else [of_nat (0xD800 + (cp - 0x10000) div 1024), of_nat (0xDC00 + (cp - 0x10000) mod 1024)])"

definition low6 :: "byte \<Rightarrow> nat" where
  "low6 b = unat b mod 64"

fun utf8_decode :: "byte list \<Rightarrow> jsstring" where
  "utf8_decode [] = []"
| "utf8_decode (b # bs) =
     (if b < 0x80 then ucast b # utf8_decode bs
      else if 0xC2 \<le> b \<and> b \<le> 0xDF then
        (case bs of
           [] \<Rightarrow> [0xFFFD]
         | c1 # r1 \<Rightarrow>
             if is_cont c1 then cp_units (unat b mod 32 * 64 + low6 c1) @ utf8_decode r1
             else 0xFFFD # utf8_decode bs)
      else if 0xE0 \<le> b \<and> b \<le> 0xEF then
        (case bs of
           [] \<Rightarrow> [0xFFFD]
         | c1 # r1 \<Rightarrow>
             if second_ok b c1 then
               (case r1 of
                  [] \<Rightarrow> [0xFFFD]
                | c2 # r2 \<Rightarrow>
                    if is_cont c2
                    then cp_units ((unat b mod 16 * 64 + low6 c1) * 64 + low6 c2) @ utf8_decode r2
                    else 0xFFFD # utf8_decode r1)
             else 0xFFFD # utf8_decode bs)
      else if 0xF0 \<le> b \<and> b \<le> 0xF4 then
        (case bs of
           [] \<Rightarrow> [0xFFFD]
         | c1 # r1 \<Rightarrow>
             if second_ok b c1 then
               (case r1 of
                  [] \<Rightarrow> [0xFFFD]
                | c2 # r2 \<Rightarrow>
                    if is_cont c2 then
                      (case r2 of
                         [] \<Rightarrow> [0xFFFD]
                       | c3 # r3 \<Rightarrow>
                           if is_cont c3
                           then cp_units (((unat b mod 8 * 64 + low6 c1) * 64 + low6 c2) * 64 + low6 c3)
                                  @ utf8_decode r3
                           else 0xFFFD # utf8_decode r2)
                    else 0xFFFD # utf8_decode r1)
             else 0xFFFD # utf8_decode bs)
      else 0xFFFD # utf8_decode bs)"

text \<open>
  The two calls of the decode step, with what they can throw.  Neither ever throws: the
  result is always \<open>Inr\<close>.
\<close>

definition Buffer_from_base64 :: "jsstring \<Rightarrow> exn + byte list" where
  "Buffer_from_base64 s = Inr (base64_decode s)"

definition toString_utf8 :: "byte list \<Rightarrow> exn + jsstring" where
  "toString_utf8 buf = Inr (utf8_decode buf)"

definition node_decode :: "jsstring \<Rightarrow> exn + jsstring" where
  "node_decode s = (case Buffer_from_base64 s of Inl e \<Rightarrow> Inl e | Inr buf \<Rightarrow> toString_utf8 buf)"

section \<open>The configuration transformer: \<open>main.ts\<close>\<close>

text \<open>\<open>String.prototype.includes\<close>.\<close>

fun js_includes :: "jsstring \<Rightarrow> jsstring \<Rightarrow> bool" where
  "js_includes [] t = (t = [])"
| "js_includes (x # xs) t = (prefix t (x # xs) \<or> js_includes xs t)"

text \<open>
  \<open>decodeConfig\<close>, over the decoding it tries: the decoded text is taken when decoding did
  not throw and the text contains \<open>[Interface]\<close>; in every other case, the \<open>catch\<close> among
  them, the input is returned as it is.
\<close>

definition decodeConfig_with :: "(jsstring \<Rightarrow> exn + jsstring) \<Rightarrow> jsstring \<Rightarrow> jsstring" where
  "decodeConfig_with dec wgConfig =
     (case dec wgConfig of
        Inr decoded \<Rightarrow> if js_includes decoded (js ''[Interface]'') then decoded else wgConfig
      | Inl e \<Rightarrow> wgConfig)"

definition decodeConfig :: "jsstring \<Rightarrow> jsstring" where
  "decodeConfig wgConfig = decodeConfig_with node_decode wgConfig"

text \<open>
  \<open>removeDnsConfig\<close> returns a string and may log a line: the model returns the lines
  logged and the string.
\<close>

definition removeDnsConfig :: "jsstring \<Rightarrow> event list \<times> jsstring" where
  "removeDnsConfig configContent =
     (case rsearch re_dns None configContent of
        Some dnsMatch \<Rightarrow>
          ([Info (js ''Removing DNS setting to prevent resolvconf hang...'')],
           remove_all re_dns_line None configContent)
      | None \<Rightarrow> ([], configContent))"

text \<open>The two steps of \<open>run\<close> that follow the decode step, and the three in a row.\<close>

definition override_step :: "jsstring \<Rightarrow> jsstring \<Rightarrow> event list \<times> jsstring" where
  "override_step allowedIps configContent =
     (if allowedIps \<noteq> []
      then ([Info (js ''Overriding AllowedIPs with: '' @ allowedIps)],
            replace_first re_allowed_ips (js ''AllowedIPs = '' @ allowedIps) configContent)
      else ([], configContent))"

definition dns_strip_step :: "bool \<Rightarrow> jsstring \<Rightarrow> event list \<times> jsstring" where
  "dns_strip_step keepDns configContent =
     (if \<not> keepDns then removeDnsConfig configContent else ([], configContent))"

definition transform_config :: "jsstring \<Rightarrow> jsstring \<Rightarrow> bool \<Rightarrow> event list \<times> jsstring" where
  "transform_config wgConfig allowedIps keepDns =
     (let c0 = decodeConfig wgConfig;
          (log1, c1) = override_step allowedIps c0;
          (log2, c2) = dns_strip_step keepDns c1
      in (log1 @ log2, c2))"

definition effective_config :: "jsstring \<Rightarrow> jsstring \<Rightarrow> bool \<Rightarrow> jsstring" where
  "effective_config wgConfig allowedIps keepDns = snd (transform_config wgConfig allowedIps keepDns)"

section \<open>Setup: \<open>main.ts\<close>\<close>

text \<open>
  \<open>core.getInput\<close>: the value of the input, trimmed; a required input that is not supplied
  throws.
\<close>

definition js_trim :: "jsstring \<Rightarrow> jsstring" where
  "js_trim s = rev (dropWhile is_white_space (rev (dropWhile is_white_space s)))"

definition getInput :: "host \<Rightarrow> jsstring \<Rightarrow> bool \<Rightarrow> jsstring act" where
  "getInput h name required =
     (if required \<and> input_env h name = []
      then throw (ErrorObj (js ''Input required and not supplied: '' @ name))
      else ret (js_trim (input_env h name)))"

definition logged :: "event list \<times> 'a \<Rightarrow> 'a act" where
  "logged p = (\<lambda>(evs, w). (Inr (snd p), (evs @ fst p, w)))"

definition writeFileSync :: "host \<Rightarrow> jsstring \<Rightarrow> jsstring \<Rightarrow> nat \<Rightarrow> unit act" where
  "writeFileSync h path content mode = (\<lambda>(evs, w).
     case write_outcome h of
       None \<Rightarrow> (Inr (), (evs @ [WriteFile path content mode], w\<lparr>tmp_file := Some content\<rparr>))
     | Some msg \<Rightarrow> (Inl (ErrorObj msg), (evs @ [WriteFile path content mode], w)))"

definition core_saveState :: "jsstring \<Rightarrow> jsstring \<Rightarrow> unit act" where
  "core_saveState k v = (\<lambda>(evs, w).
     (Inr (), (evs @ [SaveState k v], w\<lparr>saved_state := saved_state w @ [(k, v)]\<rparr>)))"

definition run :: "host \<Rightarrow> unit act" where
  "run h =
     try_catch
       (bind_act (getInput h (js ''wg-config-file'') True) (\<lambda>wgConfig.
        bind_act (getInput h (js ''allowed-ips'') False) (\<lambda>allowedIps.
        bind_act (getInput h (js ''keep-dns'') False) (\<lambda>keepDnsInput.
        then_act (core_info (js ''Installing WireGuard...''))
       (then_act (exec_exec h (map js [''sudo'', ''apt-get'', ''update'']))
       (then_act (exec_exec h (map js [''sudo'', ''apt-get'', ''install'', ''-y'', ''wireguard'',
                    ''wireguard-tools'', ''resolvconf'']))
       (bind_act (logged (transform_config wgConfig allowedIps (keepDnsInput = js ''true'')))
          (\<lambda>configContent.
        then_act (core_info (js ''Setting up WireGuard configuration...''))
       (then_act (exec_exec h (map js [''sudo'', ''mkdir'', ''-p'', ''/etc/wireguard'']))
       (then_act (writeFileSync h (js ''/tmp/wg0.conf'') configContent 384)
       (then_act (exec_exec h (map js [''sudo'', ''mv'', ''/tmp/wg0.conf'', ''/etc/wireguard/wg0.conf'']))
       (then_act (exec_exec h (map js [''sudo'', ''chmod'', ''600'', ''/etc/wireguard/wg0.conf'']))
       (then_act (core_info (js ''Starting WireGuard connection...''))
       (then_act (exec_exec h (map js [''sudo'', ''wg-quick'', ''up'', ''wg0'']))
       (then_act (core_info (js ''WireGuard connection established''))
       (then_act (exec_exec h (map js [''sudo'', ''wg'', ''show'']))
          (core_saveState (js ''wireguard-started'') (js ''true''))))))))))))))))))
       (\<lambda>error. case error of
            ErrorObj m \<Rightarrow> core_setFailed (js ''Action failed: '' @ m)
          | Thrown \<Rightarrow> core_setFailed (js ''Action failed with unknown error''))"

section \<open>Properties of the host model\<close>

text \<open>Literals: \<open>js\<close> is injective, so argument vectors compare as their literals do.\<close>

lemma unat_cu_of_char: "unat (of_char c :: cu) = of_char c"
proof -
  have "(of_char c :: nat) < 256" by (rule nat_of_char_less_256)
  then have "(of_char c :: nat) < 2 ^ 16" by (rule less_trans) simp
  then have "unat (of_nat (of_char c) :: cu) = of_char c"
    by (simp add: unat_of_nat take_bit_nat_eq_self)
  then show ?thesis by (simp add: of_nat_of_char)
qed

lemma cu_of_char_eq_iff: "(of_char c :: cu) = of_char d \<longleftrightarrow> c = d"
proof
  assume "(of_char c :: cu) = of_char d"
  then have "unat (of_char c :: cu) = unat (of_char d :: cu)" by simp
  then show "c = d" by (simp add: unat_cu_of_char)
qed simp

lemma js_eq_iff: "js s = js t \<longleftrightarrow> s = t"
  by (simp add: js_def inj_map_eq_map inj_def cu_of_char_eq_iff)

lemma command_effect_down:
  "command_effect (map js [''sudo'', ''wg-quick'', ''down'', ''wg0'']) w = w\<lparr>iface_up := False\<rparr>"
  by (simp add: command_effect_def js_eq_iff)

lemma command_effect_rm:
  "command_effect (map js [''sudo'', ''rm'', ''-f'', ''/etc/wireguard/wg0.conf'']) w = w\<lparr>conf_file := None\<rparr>"
  by (simp add: command_effect_def js_eq_iff)

lemma command_effect_probe:
  "command_effect [js ''ip'', js ''link'', js ''show'', js ''wg0''] w = w"
  "command_effect [js ''sudo'', js ''test'', js ''-f'', js ''/etc/wireguard/wg0.conf''] w = w"
  by (simp_all add: command_effect_def js_eq_iff)




















section \<open>Teardown never fails the job\<close>




section \<open>Teardown when the down operation fails\<close>

text \<open>
  Claim C8.  When the interface probe succeeds, \<open>wg-quick down\<close> fails with a message, the
  file probe succeeds and \<open>rm -f\<close> succeeds, teardown returns normally, logs exactly one
  warning (the failure to stop the tunnel, with the message of the failed command), logs no
  fatal failure, and the configuration file is gone afterwards.
\<close>

theorem cleanup_down_fails:
  assumes iface: "exec_outcome h [js ''ip'', js ''link'', js ''show'', js ''wg0''] = None"
    and down: "exec_outcome h (map js [''sudo'', ''wg-quick'', ''down'', ''wg0'']) = Some msg"
    and probe: "exec_outcome h [js ''sudo'', js ''test'', js ''-f'', js ''/etc/wireguard/wg0.conf''] = None"
    and rm: "exec_outcome h (map js [''sudo'', ''rm'', ''-f'', ''/etc/wireguard/wg0.conf'']) = None"
    and conf: "conf_file w = Some c"
  shows "outcome_of (cleanup h) w = Inr ()
    \<and> filter is_warning (events_of (cleanup h) w) = [Warning (js ''Failed to stop WireGuard: '' @ msg)]
    \<and> filter is_fatal (events_of (cleanup h) w) = []
    \<and> conf_file (world_after (cleanup h) w) = None"
proof -
  have 1: "checkInterfaceExists h (js ''wg0'') (evs, w') =
      (Inr True, (evs @ [Exec [js ''ip'', js ''link'', js ''show'', js ''wg0'']], w'))" for evs w'
    using iface by (simp add: checkInterfaceExists_def act_defs command_effect_probe)
  have 2: "stop_wireguard h (evs, w') =
      (Inr (), (evs @ [Info (js ''Stopping WireGuard connection...''),
          Exec (map js [''sudo'', ''wg-quick'', ''down'', ''wg0'']),
          Warning (js ''Failed to stop WireGuard: '' @ msg)], w'))" for evs w'
    using down by (simp add: stop_wireguard_def act_defs)
  have 3: "checkFileExists h (js ''/etc/wireguard/wg0.conf'') (evs, w') =
      (Inr True, (evs @ [Exec [js ''sudo'', js ''test'', js ''-f'', js ''/etc/wireguard/wg0.conf'']], w'))" for evs w'
    using probe by (simp add: checkFileExists_def act_defs command_effect_probe)
  have 4: "remove_config h (evs, w') =
      (Inr (), (evs @ [Info (js ''Removing WireGuard configuration...''),
          Exec (map js [''sudo'', ''rm'', ''-f'', ''/etc/wireguard/wg0.conf'']),
          Info (js ''WireGuard configuration removed'')], w'\<lparr>conf_file := None\<rparr>))" for evs w'
    using rm by (simp add: remove_config_def act_defs command_effect_rm del: list.map)
  have "cleanup h ([], w) =
      (Inr (), ([Info (js ''Starting WireGuard cleanup...''),
          Exec [js ''ip'', js ''link'', js ''show'', js ''wg0''],
          Info (js ''Stopping WireGuard connection...''),
          Exec (map js [''sudo'', ''wg-quick'', ''down'', ''wg0'']),
          Warning (js ''Failed to stop WireGuard: '' @ msg),
          Exec [js ''sudo'', js ''test'', js ''-f'', js ''/etc/wireguard/wg0.conf''],
          Info (js ''Removing WireGuard configuration...''),
          Exec (map js [''sudo'', ''rm'', ''-f'', ''/etc/wireguard/wg0.conf'']),
          Info (js ''WireGuard configuration removed''),
          Info (js ''WireGuard cleanup completed'')], w\<lparr>conf_file := None\<rparr>))"
    unfolding cleanup_def
    by (simp add: 1 2 3 4 bind_act_def then_act_def try_catch_def core_info_def emit_def del: list.map)
  then show ?thesis
    by (simp add: outcome_of_def events_of_def world_after_def del: list.map)
qed


theorem cleanup_down_fails_witness:
  "outcome_of (cleanup \<lparr>input_env = (\<lambda>n. []),
        exec_outcome = (\<lambda>argv. if argv = map js [''sudo'', ''wg-quick'', ''down'', ''wg0'']
                                  then Some (js ''exit code 1'') else None),
        write_outcome = None\<rparr>)
      \<lparr>iface_up = True, tmp_file = None, conf_file = Some (js ''[Interface]''), saved_state = []\<rparr>
    = Inr ()
   \<and> filter is_warning (events_of (cleanup \<lparr>input_env = (\<lambda>n. []),
        exec_outcome = (\<lambda>argv. if argv = map js [''sudo'', ''wg-quick'', ''down'', ''wg0'']
                                  then Some (js ''exit code 1'') else None),
        write_outcome = None\<rparr>)
      \<lparr>iface_up = True, tmp_file = None, conf_file = Some (js ''[Interface]''), saved_state = []\<rparr>)
    = [Warning (js ''Failed to stop WireGuard: '' @ js ''exit code 1'')]
   \<and> conf_file (world_after (cleanup \<lparr>input_env = (\<lambda>n. []),
        exec_outcome = (\<lambda>argv. if argv = map js [''sudo'', ''wg-quick'', ''down'', ''wg0'']
                                  then Some (js ''exit code 1'') else None),
        write_outcome = None\<rparr>)
      \<lparr>iface_up = True, tmp_file = None, conf_file = Some (js ''[Interface]''), saved_state = []\<rparr>)
    = None"
  using cleanup_down_fails [of
      "\<lparr>input_env = (\<lambda>n. []),
        exec_outcome = (\<lambda>argv. if argv = map js [''sudo'', ''wg-quick'', ''down'', ''wg0'']
                                  then Some (js ''exit code 1'') else None),
        write_outcome = None\<rparr>"
      "js ''exit code 1''"
      "\<lparr>iface_up = True, tmp_file = None, conf_file = Some (js ''[Interface]''), saved_state = []\<rparr>"
      "js ''[Interface]''"]
  by (simp add: js_eq_iff)

end
